theory Spec2Isabelle
  imports Main
begin

section \<open>Values shared by the request client and the generation controller\<close>

text \<open>
  A JavaScript value that is thrown (or that a promise rejects with) is kept as the
  name of its constructor and its \<open>message\<close> property.
\<close>

datatype thrown = Thrown (err_name: string) (err_message: string)

text \<open>\<open>new Error("No image generated in response")\<close>, line 55 of the source.\<close>

definition no_image_error :: thrown where
  "no_image_error = Thrown ''Error'' ''No image generated in response''"

text \<open>
  The \<open>TypeError\<close> the engine raises when property \<open>p\<close> is read from \<open>undefined\<close>
  (the wording of the message is V8's; nothing below depends on it).
\<close>

definition type_error :: "string \<Rightarrow> thrown" where
  "type_error p =
     Thrown ''TypeError''
       (''Cannot read properties of undefined (reading '' @ [CHR 0x27] @ p @ [CHR 0x27] @ '')'')"

text \<open>The resolution tiers \<open>'1K' | '2K' | '4K'\<close>.\<close>

datatype image_size = K1 | K2 | K4

subsection \<open>The response of the image-generation service\<close>

text \<open>
  The response type belongs to the vendor SDK. It is modelled with exactly the fields the
  client reads. Optional are those the client tests for presence or that a JavaScript
  array or object can lack on the way to them: \<open>response.candidates\<close>,
  \<open>candidates[0]\<close>, \<open>.content\<close>, \<open>.parts\<close> and \<open>part.inlineData\<close>. The
  payload \<open>inlineData.data\<close> of an image part is a string.
\<close>

record blob =
  mimeType :: string
  data :: string

record part =
  part_text :: "string option"
  inlineData :: "blob option"

record content =
  parts :: "part list option"

record candidate =
  content :: "content option"

record response =
  candidates :: "candidate list option"

subsection \<open>The request and the observable effects\<close>

record request =
  apiKey :: string
  model :: string
  contents :: string
  aspectRatio :: string
  imageSize :: image_size

text \<open>
  Everything the code does to the outside world other than the two stores is appended to
  a log, in the order in which it happens.
\<close>

datatype event =
    PreventDefault
  | OpenSelectKey
  | Alert string
  | GenerateContent request
  | ConsoleError "string option" thrown
  | DispatchEvent string

text \<open>
  The capability object \<open>window.aistudio\<close>. Its method \<open>openSelectKey\<close> may be
  missing; when present, the outcome of its \<open>k\<close>-th call (counted from 0) is either a
  normal return (\<open>None\<close>) or a rejection.
\<close>

record aistudio =
  openSelectKey :: "(nat \<Rightarrow> thrown option) option"

text \<open>
  The environment of one run: \<open>process.env.API_KEY\<close>, the constant \<open>IMAGE_COST\<close>
  (imported from a file that is not part of the sources, hence a parameter), the
  capability object, and the external service, which answers a request with a response
  or throws.
\<close>

record env =
  API_KEY :: "string option"
  IMAGE_COST :: int
  aistudio :: "aistudio option"
  generateContent :: "request \<Rightarrow> thrown + response"

section \<open>The request client: \<open>generateImage\<close>\<close>

definition modelName :: string where
  "modelName = ''gemini-3-pro-image-preview''"

text \<open>
  The \<open>for\<close> loop of lines 45 to 51: the first part with \<open>inlineData\<close> sets
  \<open>imageUrl\<close> and breaks; parts without it leave \<open>imageUrl\<close> as it is.
\<close>

fun find_image :: "part list \<Rightarrow> string \<Rightarrow> string" where
  "find_image [] imageUrl = imageUrl"
| "find_image (p # ps) imageUrl =
     (case inlineData p of
        Some b \<Rightarrow> ''data:image/png;base64,'' @ data b
      | None \<Rightarrow> find_image ps imageUrl)"

text \<open>Lines 54 to 58: an empty \<open>imageUrl\<close> is falsy and throws.\<close>

definition finish :: "string \<Rightarrow> thrown + string" where
  "finish imageUrl = (if imageUrl = [] then Inl no_image_error else Inr imageUrl)"

text \<open>
  Lines 41 to 58. The guard \<open>response.candidates && response.candidates[0].content.parts\<close>
  is falsy when \<open>candidates\<close> is absent or when \<open>parts\<close> is absent. An empty array is
  truthy, so with \<open>candidates = []\<close> the element \<open>candidates[0]\<close> is \<open>undefined\<close>
  and reading \<open>.content\<close> from it throws; a first candidate without \<open>content\<close>
  throws on reading \<open>.parts\<close>.
\<close>

definition scan_response :: "response \<Rightarrow> thrown + string" where
  "scan_response r =
     (case candidates r of
        None \<Rightarrow> finish []
      | Some [] \<Rightarrow> Inl (type_error ''content'')
      | Some (c # _) \<Rightarrow>
          (case content c of
             None \<Rightarrow> Inl (type_error ''parts'')
           | Some ct \<Rightarrow>
               (case parts ct of
                  None \<Rightarrow> finish []
                | Some ps \<Rightarrow> finish (find_image ps []))))"

text \<open>
  Lines 22 to 39: the request. \<open>process.env.API_KEY || ''\<close> is the key, or the empty
  string when the key is absent (or empty).
\<close>

definition build_request :: "env \<Rightarrow> string \<Rightarrow> image_size \<Rightarrow> request" where
  "build_request e prompt sz =
     \<lparr> apiKey = (case API_KEY e of None \<Rightarrow> [] | Some k \<Rightarrow> k),
       model = modelName,
       contents = prompt,
       aspectRatio = ''1:1'',
       imageSize = sz \<rparr>"

text \<open>The default of the second parameter, \<open>size = '1K'\<close>, for a call that omits it.\<close>

definition requested_size :: "image_size option \<Rightarrow> image_size" where
  "requested_size size_arg = (case size_arg of None \<Rightarrow> K1 | Some s \<Rightarrow> s)"

text \<open>
  \<open>generateImage(prompt, size = '1K')\<close>: the events it causes and its result, \<open>Inl\<close>
  for a rejected promise. The \<open>catch\<close> of lines 60 to 63 logs whatever was thrown
  inside the \<open>try\<close>, by the service or by the scan, and throws it again.
\<close>

definition generateImage ::
  "env \<Rightarrow> string \<Rightarrow> image_size option \<Rightarrow> event list \<times> (thrown + string)" where
  "generateImage e prompt size_arg =
     (let sz = requested_size size_arg;
          req = build_request e prompt sz;
          tried = (case generateContent e req of
                     Inl err \<Rightarrow> Inl err
                   | Inr r \<Rightarrow> scan_response r)
      in case tried of
           Inl err \<Rightarrow>
             ([GenerateContent req, ConsoleError (Some ''Gemini API Error:'') err], Inl err)
         | Inr imageUrl \<Rightarrow> ([GenerateContent req], Inr imageUrl))"

section \<open>The generation controller\<close>

subsection \<open>State\<close>

text \<open>
  The type \<open>User\<close> is imported from a file that is not part of the sources; the
  controller reads its fields \<open>id\<close> and \<open>credits\<close> only.
\<close>

record user =
  uid :: string
  credits :: int

text \<open>The \<open>useState\<close> cells of the component.\<close>

record gen_state =
  prompt :: string
  size_tier :: image_size
  isGenerating :: bool
  generatedImage :: "string option"
  error :: string
  user :: "user option"
  hasApiKey :: bool

record history_entry =
  accountId :: string
  entry_prompt :: string
  imageReference :: string
  modelIdentifier :: string
  resolution :: image_size

text \<open>
  The world outside the component: the account store, the history store, and the log of
  all other effects.
\<close>

record world =
  balances :: "string \<Rightarrow> int"
  history :: "history_entry list"
  events :: "event list"

datatype credit_op = Add | Subtract

text \<open>
  Modelled from the spec: \<open>updateUserCredits\<close> of the mock backend, which is not part
  of the sources. The spec gives the account store one operation,
  \<open>debit(accountId, amount) \<rightarrow> updatedAccount\<close>, that never lets the balance of an
  account (an id and a non-negative credit balance) fall below zero. The operation
  \<open>Add\<close>, which the controller never requests, is taken as the plain sum.
\<close>

definition updateUserCredits ::
  "(string \<Rightarrow> int) \<Rightarrow> string \<Rightarrow> int \<Rightarrow> credit_op \<Rightarrow> (string \<Rightarrow> int) \<times> user" where
  "updateUserCredits bal i amount op =
     (let b = (case op of Subtract \<Rightarrow> max 0 (bal i - amount) | Add \<Rightarrow> bal i + amount)
      in (bal(i := b), \<lparr> uid = i, credits = b \<rparr>))"

text \<open>
  Modelled from the spec: \<open>saveImage\<close> of the mock backend, which is not part of the
  sources. The spec gives the history store one operation,
  \<open>append(accountId, prompt, imageReference, modelIdentifier, resolution)\<close>, on an
  append-only log. The time stamp of an entry is the store's own and is left out.
\<close>

definition saveImage ::
  "history_entry list \<Rightarrow> string \<Rightarrow> string \<Rightarrow> string \<Rightarrow> string \<Rightarrow> image_size \<Rightarrow> history_entry list" where
  "saveImage h i p url m sz =
     h @ [\<lparr> accountId = i, entry_prompt = p, imageReference = url,
            modelIdentifier = m, resolution = sz \<rparr>]"

subsection \<open>Strings\<close>

text \<open>The decimal text JavaScript gives an integer inside a template literal.\<close>

fun string_of_nat :: "nat \<Rightarrow> string" where
  "string_of_nat n =
     (if n < 10 then [''0123456789'' ! n]
      else string_of_nat (n div 10) @ [''0123456789'' ! (n mod 10)])"

declare string_of_nat.simps [simp del]

definition string_of_int :: "int \<Rightarrow> string" where
  "string_of_int i = (if i < 0 then CHR ''-'' # string_of_nat (nat (- i)) else string_of_nat (nat i))"

text \<open>\<open>s.startsWith(t)\<close> and \<open>s.includes(t)\<close>.\<close>

fun starts_with :: "string \<Rightarrow> string \<Rightarrow> bool" where
  "starts_with s [] = True"
| "starts_with [] (y # ys) = False"
| "starts_with (x # xs) (y # ys) = (x = y \<and> starts_with xs ys)"

fun includes_str :: "string \<Rightarrow> string \<Rightarrow> bool" where
  "includes_str [] t = (t = [])"
| "includes_str (x # xs) t = (starts_with (x # xs) t \<or> includes_str xs t)"

subsection \<open>\<open>handleSelectKey\<close>\<close>

definition emit :: "event \<Rightarrow> world \<Rightarrow> world" where
  "emit ev w = w\<lparr> events := events w @ [ev] \<rparr>"

text \<open>
  One call of \<open>aiStudio.openSelectKey()\<close>: the call is logged, and its outcome is the one
  the capability gives for as many calls as the log already holds.
\<close>

definition select_calls :: "world \<Rightarrow> nat" where
  "select_calls w = length (filter (\<lambda>ev. ev = OpenSelectKey) (events w))"

definition call_openSelectKey :: "(nat \<Rightarrow> thrown option) \<Rightarrow> world \<Rightarrow> world \<times> thrown option" where
  "call_openSelectKey f w = (emit OpenSelectKey w, f (select_calls w))"

text \<open>
  Lines 109 to 129. The third component is \<open>Some x\<close> when the promise rejects with
  \<open>x\<close>: the only throw that escapes is one of the second \<open>openSelectKey\<close>, issued
  inside the \<open>catch\<close>. The \<open>catch\<close> is reached only from a call of
  \<open>aiStudio.openSelectKey\<close>, so the capability and its method exist there.
\<close>

definition handleSelectKey :: "env \<Rightarrow> gen_state \<Rightarrow> world \<Rightarrow> gen_state \<times> world \<times> thrown option" where
  "handleSelectKey e s w =
     (case aistudio e of
        None \<Rightarrow> (s, w, None)
      | Some a \<Rightarrow>
          (case openSelectKey a of
             None \<Rightarrow> (s, w, None)
           | Some f \<Rightarrow>
               (case call_openSelectKey f w of
                  (w1, None) \<Rightarrow> (s\<lparr> hasApiKey := True \<rparr>, w1, None)
                | (w1, Some x) \<Rightarrow>
                    if err_message x \<noteq> [] \<and> includes_str (err_message x) ''Requested entity was not found''
                    then
                      (let s1 = s\<lparr> hasApiKey := False \<rparr>;
                           w2 = emit (Alert ''Please select a valid API key again.'') w1
                       in case call_openSelectKey f w2 of
                            (w3, None) \<Rightarrow> (s1\<lparr> hasApiKey := True \<rparr>, w3, None)
                          | (w3, Some y) \<Rightarrow> (s1, w3, Some y))
                    else (s, emit (ConsoleError None x) w1, None))))"

subsection \<open>\<open>handleGenerate\<close>\<close>

text \<open>Lines 146 to 169, entered once the credit check and the key selection are past.\<close>

definition run_generation :: "env \<Rightarrow> user \<Rightarrow> gen_state \<Rightarrow> gen_state \<Rightarrow> world \<Rightarrow> gen_state \<times> world" where
  "run_generation e u s0 s w =
     (let s1 = s\<lparr> isGenerating := True, error := [], generatedImage := None \<rparr>
      in case generateImage e (prompt s0) (Some (size_tier s0)) of
           (evs, Inr imageUrl) \<Rightarrow>
             (let s2 = s1\<lparr> generatedImage := Some imageUrl \<rparr>;
                  (bal, updatedUser) = updateUserCredits (balances w) (uid u) (IMAGE_COST e) Subtract;
                  s3 = s2\<lparr> user := Some updatedUser \<rparr>;
                  w1 = w\<lparr> balances := bal, events := events w @ evs @ [DispatchEvent ''user-updated''] \<rparr>;
                  w2 = w1\<lparr> history := saveImage (history w1) (uid u) (prompt s0) imageUrl
                                          ''gemini-3-pro-image-preview'' (size_tier s0) \<rparr>
              in (s3\<lparr> isGenerating := False \<rparr>, w2))
         | (evs, Inl err) \<Rightarrow>
             (s1\<lparr> error := ''Failed to generate image. Please try again or check your API key settings.'',
                  isGenerating := False \<rparr>,
              w\<lparr> events := events w @ evs @ [ConsoleError None err] \<rparr>))"

text \<open>
  Lines 131 to 170. \<open>s\<close> holds the values the handler's closure sees: \<open>user\<close>,
  \<open>prompt\<close>, \<open>size\<close> and \<open>hasApiKey\<close> are read from it throughout. The third
  component is \<open>Some x\<close> when the handler's promise rejects with \<open>x\<close>, which happens
  only when \<open>handleSelectKey\<close> does, outside the \<open>try\<close>.
\<close>

definition handleGenerate :: "env \<Rightarrow> gen_state \<Rightarrow> world \<Rightarrow> gen_state \<times> world \<times> thrown option" where
  "handleGenerate e s w =
     (let w0 = emit PreventDefault w
      in case user s of
           None \<Rightarrow> (s, w0, None)
         | Some u \<Rightarrow>
             if credits u < IMAGE_COST e
             then (s\<lparr> error := ''Not enough credits. You need '' @ string_of_int (IMAGE_COST e)
                                 @ '' credits to generate an image.'' \<rparr>, w0, None)
             else
               (case (if \<not> hasApiKey s \<and> aistudio e \<noteq> None
                      then handleSelectKey e s w0 else (s, w0, None)) of
                  (s1, w1, Some x) \<Rightarrow> (s1, w1, Some x)
                | (s1, w1, None) \<Rightarrow>
                    (case run_generation e u s s1 w1 of (s2, w2) \<Rightarrow> (s2, w2, None))))"

section \<open>Notions the properties are stated with\<close>

text \<open>
  All content parts of a response, over all its candidates, and the parts among them
  that carry an image: those the client's test \<open>part.inlineData\<close> accepts.
\<close>

definition candidate_parts :: "candidate \<Rightarrow> part list" where
  "candidate_parts c =
     (case content c of
        None \<Rightarrow> []
      | Some ct \<Rightarrow> (case parts ct of None \<Rightarrow> [] | Some ps \<Rightarrow> ps))"

definition response_parts :: "response \<Rightarrow> part list" where
  "response_parts r = (case candidates r of None \<Rightarrow> [] | Some cs \<Rightarrow> concat (map candidate_parts cs))"

definition carries_image :: "part \<Rightarrow> bool" where
  "carries_image p = (inlineData p \<noteq> None)"

definition image_parts :: "response \<Rightarrow> part list" where
  "image_parts r = filter carries_image (response_parts r)"

subsection \<open>Sample values\<close>

definition text_part :: "string \<Rightarrow> part" where
  "text_part t = \<lparr> part_text = Some t, inlineData = None \<rparr>"

definition image_part :: "string \<Rightarrow> string \<Rightarrow> part" where
  "image_part mt d = \<lparr> part_text = None, inlineData = Some \<lparr> mimeType = mt, data = d \<rparr> \<rparr>"

definition candidate_of :: "part list \<Rightarrow> candidate" where
  "candidate_of ps = \<lparr> content = Some \<lparr> parts = Some ps \<rparr> \<rparr>"

text \<open>A service that answers every request with the same response, and one that always throws.\<close>

definition answering :: "response \<Rightarrow> request \<Rightarrow> thrown + response" where
  "answering r req = Inr r"

definition throwing :: "thrown \<Rightarrow> request \<Rightarrow> thrown + response" where
  "throwing x req = Inl x"

text \<open>A key dialog whose first call rejects with \<open>x\<close> and whose later calls succeed.\<close>

definition rejecting_first :: "thrown \<Rightarrow> nat \<Rightarrow> thrown option" where
  "rejecting_first x k = (if k = 0 then Some x else None)"

definition always_rejecting :: "thrown \<Rightarrow> nat \<Rightarrow> thrown option" where
  "always_rejecting x k = Some x"

definition sample_env :: "(request \<Rightarrow> thrown + response) \<Rightarrow> env" where
  "sample_env svc = \<lparr> API_KEY = None, IMAGE_COST = 10, aistudio = None, generateContent = svc \<rparr>"

definition sample_state :: "int \<Rightarrow> gen_state" where
  "sample_state c =
     \<lparr> prompt = ''a red fox'', size_tier = K2, isGenerating = False, generatedImage = None,
       error = [], user = Some \<lparr> uid = ''u1'', credits = c \<rparr>, hasApiKey = True \<rparr>"

definition sample_balances :: "int \<Rightarrow> string \<Rightarrow> int" where
  "sample_balances c i = (if i = ''u1'' then c else 0)"

definition sample_world :: "int \<Rightarrow> world" where
  "sample_world c = \<lparr> balances = sample_balances c, history = [], events = [] \<rparr>"

definition key_env :: "(request \<Rightarrow> thrown + response) \<Rightarrow> (nat \<Rightarrow> thrown option) \<Rightarrow> env" where
  "key_env svc f = (sample_env svc)\<lparr> aistudio := Some \<lparr> openSelectKey = Some f \<rparr> \<rparr>"

text \<open>
  A response with a text part and two image parts; a response whose only candidate was
  blocked and has no content; a response whose only image is in its second candidate.
\<close>

definition sample_response :: response where
  "sample_response =
     \<lparr> candidates = Some [candidate_of [text_part ''Here is your image.'',
                                         image_part ''image/jpeg'' ''QUJD'',
                                         image_part ''image/png'' ''REVG'']] \<rparr>"

definition blocked_response :: response where
  "blocked_response = \<lparr> candidates = Some [\<lparr> content = None \<rparr>] \<rparr>"

definition late_image_response :: response where
  "late_image_response =
     \<lparr> candidates = Some [candidate_of [text_part ''No image here.''],
                          candidate_of [image_part ''image/png'' ''QUJD'']] \<rparr>"

definition not_found_error :: thrown where
  "not_found_error = Thrown ''ApiError'' ''404: Requested entity was not found.''"

definition quota_error :: thrown where
  "quota_error = Thrown ''ApiError'' ''429: quota exceeded''"

definition cancelled_error :: thrown where
  "cancelled_error = Thrown ''Error'' ''The key dialog was closed.''"

section \<open>Auxiliary facts\<close>

lemmas sample_defs = sample_env_def sample_state_def sample_world_def sample_balances_def
  sample_response_def blocked_response_def late_image_response_def not_found_error_def
  quota_error_def cancelled_error_def key_env_def answering_def throwing_def rejecting_first_def
  always_rejecting_def candidate_of_def text_part_def image_part_def

lemmas run_defs = handleGenerate_def handleSelectKey_def call_openSelectKey_def
  run_generation_def generateImage_def build_request_def requested_size_def
  scan_response_def finish_def updateUserCredits_def saveImage_def emit_def
  select_calls_def modelName_def no_image_error_def type_error_def Let_def

subsection \<open>The request client\<close>

lemma generateImage_result:
  "snd (generateImage e p sz) =
     (case generateContent e (build_request e p (requested_size sz)) of
        Inl x \<Rightarrow> Inl x
      | Inr r \<Rightarrow> scan_response r)"
  by (simp add: generateImage_def Let_def split: sum.splits)

lemma generateImage_events:
  "fst (generateImage e p sz) =
     GenerateContent (build_request e p (requested_size sz)) #
       (case snd (generateImage e p sz) of
          Inl x \<Rightarrow> [ConsoleError (Some ''Gemini API Error:'') x]
        | Inr url \<Rightarrow> [])"
  by (simp add: generateImage_def Let_def split: sum.splits)

lemma generateImage_no_select:
  "OpenSelectKey \<notin> set (fst (generateImage e p sz))"
  by (auto simp: generateImage_def Let_def split: sum.splits)

lemma find_image_first:
  "\<forall>q \<in> set pre. inlineData q = None \<Longrightarrow> inlineData ip = Some b \<Longrightarrow>
     find_image (pre @ ip # post) acc = ''data:image/png;base64,'' @ data b"
  by (induction pre) auto

lemma find_image_cases:
  "find_image ps acc = acc \<or>
     (\<exists>q b. q \<in> set ps \<and> inlineData q = Some b \<and>
        find_image ps acc = ''data:image/png;base64,'' @ data b)"
  by (induction ps) (auto split: option.splits)

lemma scan_response_Inr:
  "scan_response r = Inr url \<Longrightarrow>
     \<exists>c cs ct ps q b. candidates r = Some (c # cs) \<and> content c = Some ct \<and> parts ct = Some ps \<and>
        q \<in> set ps \<and> inlineData q = Some b \<and> url = ''data:image/png;base64,'' @ data b"
  using find_image_cases [of _ "[]"]
  by (auto simp: scan_response_def finish_def split: option.splits list.splits if_splits)

text \<open>
  Where the scan does reach line 55: the candidates are absent, or the first candidate has
  content and none of its parts, if it has any, carries an image.
\<close>

lemma find_image_none:
  "\<forall>q \<in> set ps. inlineData q = None \<Longrightarrow> find_image ps acc = acc"
  by (induction ps) auto

lemma scan_response_no_image:
  assumes "candidates r = None
           \<or> (\<exists>c cs ct. candidates r = Some (c # cs) \<and> content c = Some ct
                 \<and> (\<forall>q \<in> set (candidate_parts c). inlineData q = None))"
  shows "scan_response r = Inl no_image_error"
  using assms
  by (auto simp: scan_response_def finish_def candidate_parts_def find_image_none
           split: option.splits)

subsection \<open>Strings and the log\<close>

lemma includes_str_append: "includes_str (xs @ t @ ys) t"
proof (induction xs)
  case Nil
  have sw: "starts_with (t @ ys) t" for ys :: string
    by (induction t) auto
  show ?case
  proof (cases "t @ ys")
    case Nil
    then show ?thesis by simp
  next
    case (Cons z zs)
    with sw [of ys] show ?thesis by simp
  qed
next
  case (Cons x xs)
  then show ?case by simp
qed

lemma select_calls_emit:
  "select_calls (emit ev w) = (if ev = OpenSelectKey then Suc (select_calls w) else select_calls w)"
  by (simp add: select_calls_def emit_def)

lemma events_emit: "events (emit ev w) = events w @ [ev]"
  by (simp add: emit_def)

lemma balances_emit: "balances (emit ev w) = balances w"
  by (simp add: emit_def)

lemma history_emit: "history (emit ev w) = history w"
  by (simp add: emit_def)

subsection \<open>The steps of the controller\<close>

lemma handleSelectKey_frame:
  "handleSelectKey e s w = (s', w', r) \<Longrightarrow>
     balances w' = balances w \<and> history w' = history w \<and> user s' = user s"
  by (auto simp: handleSelectKey_def call_openSelectKey_def Let_def balances_emit history_emit
           split: option.splits if_splits prod.splits)

lemma handleSelectKey_retry:
  assumes "aistudio e = Some a" and "openSelectKey a = Some f"
      and "f (select_calls w) = Some x"
      and "includes_str (err_message x) ''Requested entity was not found''"
      and "handleSelectKey e s w = (s', w', r)"
  shows "events w' = events w @ [OpenSelectKey, Alert ''Please select a valid API key again.'', OpenSelectKey]
         \<and> r = f (Suc (select_calls w)) \<and> hasApiKey s' = (r = None)"
proof -
  from assms(4) have ne: "err_message x \<noteq> []"
    by (cases "err_message x") auto
  show ?thesis
    using assms ne
    by (cases "f (Suc (select_calls w))")
       (auto simp: handleSelectKey_def call_openSelectKey_def Let_def select_calls_emit events_emit)
qed

lemma run_generation_failure:
  "snd (generateImage e p0 (Some sz0)) = Inl x \<Longrightarrow> prompt s0 = p0 \<Longrightarrow> size_tier s0 = sz0 \<Longrightarrow>
   run_generation e u s0 s w = (s', w') \<Longrightarrow>
     balances w' = balances w \<and> history w' = history w \<and> user s' = user s
       \<and> error s' = ''Failed to generate image. Please try again or check your API key settings.''"
  by (cases "generateImage e p0 (Some sz0)") (auto simp: run_generation_def Let_def)

lemma run_generation_success:
  assumes "snd (generateImage e (prompt s0) (Some (size_tier s0))) = Inr url"
      and "run_generation e u s0 s w = (s', w')"
  shows "balances w' = (balances w)(uid u := max 0 (balances w (uid u) - IMAGE_COST e))
         \<and> user s' = Some \<lparr> uid = uid u, credits = max 0 (balances w (uid u) - IMAGE_COST e) \<rparr>
         \<and> history w' = history w @ [\<lparr> accountId = uid u, entry_prompt = prompt s0,
               imageReference = url, modelIdentifier = ''gemini-3-pro-image-preview'',
               resolution = size_tier s0 \<rparr>]
         \<and> generatedImage s' = Some url \<and> error s' = []"
  using assms
  by (cases "generateImage e (prompt s0) (Some (size_tier s0))")
     (auto simp: run_generation_def Let_def updateUserCredits_def saveImage_def)

lemma run_generation_events:
  "run_generation e u s0 s w = (s', w') \<Longrightarrow>
     \<exists>ev. ev \<noteq> OpenSelectKey \<and>
       events w' = events w @ fst (generateImage e (prompt s0) (Some (size_tier s0))) @ [ev]"
  by (cases "generateImage e (prompt s0) (Some (size_tier s0))")
     (auto simp: run_generation_def Let_def updateUserCredits_def split: sum.splits)

text \<open>
  Whatever the key selection of lines 140 to 144 does, it leaves both stores and the loaded
  user as they were.
\<close>

lemma key_gate_frame:
  assumes "(if \<not> hasApiKey s \<and> aistudio e \<noteq> None
            then handleSelectKey e s (emit PreventDefault w)
            else (s, emit PreventDefault w, None)) = (s1, w1, r1)"
  shows "balances w1 = balances w \<and> history w1 = history w \<and> user s1 = user s"
proof (cases "\<not> hasApiKey s \<and> aistudio e \<noteq> None")
  case True
  with assms have "handleSelectKey e s (emit PreventDefault w) = (s1, w1, r1)" by simp
  from handleSelectKey_frame [OF this] show ?thesis
    by (simp add: balances_emit history_emit)
next
  case False
  with assms show ?thesis by (auto simp: balances_emit history_emit)
qed

section \<open>The request client: properties\<close>

text \<open>
  C3. For every service response containing zero image-carrying parts, the request client
  fails with the error "No image generated in response", and no debit and no history
  write occurs. The code misses a case here: a response whose first candidate has no
  content (as the service sends for a blocked generation) carries no image part, yet the
  client fails with the engine's \<open>TypeError\<close> for reading \<open>.parts\<close> of
  \<open>undefined\<close>, not with the error of line 55. The following evaluates the code at
  that response.
\<close>

theorem generateImage_candidate_without_content:
  "image_parts blocked_response = []
   \<and> generateImage (sample_env (answering blocked_response)) ''a red fox'' (Some K1)
       = ([GenerateContent \<lparr> apiKey = [], model = ''gemini-3-pro-image-preview'',
                              contents = ''a red fox'', aspectRatio = ''1:1'', imageSize = K1 \<rparr>,
           ConsoleError (Some ''Gemini API Error:'') (type_error ''parts'')],
          Inl (type_error ''parts''))
   \<and> type_error ''parts'' \<noteq> no_image_error"
  by (simp add: sample_defs run_defs image_parts_def response_parts_def candidate_parts_def)

text \<open>
  C4, as stated: for every service response containing at least one image-carrying part,
  the request client returns the payload of the first such part as a PNG data URI. This
  fails for a response whose only image-carrying part is in its second candidate: the
  client reads \<open>candidates[0]\<close> only and throws.
\<close>

theorem generateImage_image_in_later_candidate:
  "image_parts late_image_response = [image_part ''image/png'' ''QUJD'']
   \<and> snd (generateImage (sample_env (answering late_image_response)) ''a red fox'' (Some K1))
       = Inl no_image_error"
  by (simp add: sample_defs run_defs image_parts_def response_parts_def candidate_parts_def
        carries_image_def)

text \<open>
  C4, amended: for every service response whose first candidate's content parts contain at
  least one image-carrying part, the request client returns the payload of the first such
  part, wrapped verbatim (no base64 decoding) into a data URI with the fixed PNG media
  type, whatever the parts after it, the other candidates and the part's own media type
  are.
\<close>

theorem generateImage_first_image_part:
  assumes "generateContent e (build_request e p (requested_size sz)) = Inr r"
      and "candidates r = Some (c # cs)" and "content c = Some ct"
      and "parts ct = Some (pre @ ip # post)"
      and "\<forall>q \<in> set pre. \<not> carries_image q" and "inlineData ip = Some b"
  shows "snd (generateImage e p sz) = Inr (''data:image/png;base64,'' @ data b)"
proof -
  from assms(5) have "\<forall>q \<in> set pre. inlineData q = None"
    by (simp add: carries_image_def)
  from find_image_first [OF this assms(6)]
  have "find_image (pre @ ip # post) [] = ''data:image/png;base64,'' @ data b" .
  with assms(1-4) show ?thesis
    by (simp add: generateImage_result scan_response_def finish_def)
qed

theorem generateImage_first_image_part_witness:
  "snd (generateImage (sample_env (answering sample_response)) ''a red fox'' None)
     = Inr ''data:image/png;base64,QUJD''"
proof -
  let ?e = "sample_env (answering sample_response)"
  let ?c = "candidate_of [text_part ''Here is your image.'', image_part ''image/jpeg'' ''QUJD'',
                          image_part ''image/png'' ''REVG'']"
  let ?b = "\<lparr> mimeType = ''image/jpeg'', data = ''QUJD'' \<rparr>"
  have h1: "generateContent ?e (build_request ?e ''a red fox'' (requested_size None)) = Inr sample_response"
    by (simp add: sample_defs)
  have h2: "candidates sample_response = Some (?c # [])"
    by (simp add: sample_defs)
  have h3: "content ?c = Some \<lparr> parts = Some ([text_part ''Here is your image.'']
              @ image_part ''image/jpeg'' ''QUJD'' # [image_part ''image/png'' ''REVG'']) \<rparr>"
    by (simp add: sample_defs)
  have h4: "parts \<lparr> parts = Some ([text_part ''Here is your image.'']
              @ image_part ''image/jpeg'' ''QUJD'' # [image_part ''image/png'' ''REVG'']) \<rparr>
            = Some ([text_part ''Here is your image.'']
              @ image_part ''image/jpeg'' ''QUJD'' # [image_part ''image/png'' ''REVG''])"
    by simp
  have h5: "\<forall>q \<in> set [text_part ''Here is your image.'']. \<not> carries_image q"
    by (simp add: sample_defs carries_image_def)
  have h6: "inlineData (image_part ''image/jpeg'' ''QUJD'') = Some ?b"
    by (simp add: sample_defs)
  from generateImage_first_image_part [OF h1 h2 h3 h4 h5 h6] show ?thesis
    by simp
qed

text \<open>
  C6. For every error thrown by the underlying external call, the request client
  propagates the original error value unmodified to the caller, neither wrapping it nor
  classifying it further: the \<open>catch\<close> logs the value and throws the same value.
\<close>

theorem generateImage_rethrows_upstream_error:
  assumes "generateContent e (build_request e p (requested_size sz)) = Inl x"
  shows "generateImage e p sz =
           ([GenerateContent (build_request e p (requested_size sz)),
             ConsoleError (Some ''Gemini API Error:'') x], Inl x)"
  using assms by (simp add: generateImage_def Let_def)

theorem generateImage_rethrows_upstream_error_witness:
  "snd (generateImage (sample_env (throwing quota_error)) ''a red fox'' (Some K4))
     = Inl (Thrown ''ApiError'' ''429: quota exceeded'')"
proof -
  let ?e = "sample_env (throwing quota_error)"
  have h: "generateContent ?e (build_request ?e ''a red fox'' (requested_size (Some K4))) = Inl quota_error"
    by (simp add: sample_defs)
  from generateImage_rethrows_upstream_error [OF h] show ?thesis
    by (simp add: quota_error_def)
qed

text \<open>
  C8, as stated: the request client validates its inputs, the prompt must be non-empty.
  The client has no such check: called with the empty prompt, it sends the request with
  the empty text to the service and returns the image the service answers with.
\<close>

theorem generateImage_accepts_empty_prompt:
  "generateImage (sample_env (answering sample_response)) [] (Some K1)
     = ([GenerateContent \<lparr> apiKey = [], model = ''gemini-3-pro-image-preview'', contents = [],
                            aspectRatio = ''1:1'', imageSize = K1 \<rparr>],
        Inr ''data:image/png;base64,QUJD'')"
  by (simp add: sample_defs run_defs)

text \<open>
  C8, amended: the request client does not validate the prompt. For every call, whatever
  the prompt, the empty one included, it sends one request that carries the prompt
  unchanged, and its result is decided by what the service does with that request alone.
  The resolution is one of the three tiers by its type, \<open>1K\<close> when the caller omits it,
  and an absent credential is passed to the service as the empty string rather than
  rejected locally.
\<close>

theorem generateImage_sends_prompt_unchecked:
  "fst (generateImage e p sz) =
     GenerateContent \<lparr> apiKey = (case API_KEY e of None \<Rightarrow> [] | Some k \<Rightarrow> k),
                       model = ''gemini-3-pro-image-preview'', contents = p,
                       aspectRatio = ''1:1'', imageSize = requested_size sz \<rparr>
       # (case snd (generateImage e p sz) of
            Inl x \<Rightarrow> [ConsoleError (Some ''Gemini API Error:'') x] | Inr url \<Rightarrow> [])
   \<and> snd (generateImage e p sz) =
       (case generateContent e (build_request e p (requested_size sz)) of
          Inl x \<Rightarrow> Inl x | Inr r \<Rightarrow> scan_response r)
   \<and> requested_size sz \<in> {K1, K2, K4} \<and> requested_size None = K1"
proof -
  have "requested_size sz \<in> {K1, K2, K4}"
    by (cases "requested_size sz") auto
  then show ?thesis
    by (simp add: generateImage_events generateImage_result)
       (simp add: build_request_def modelName_def requested_size_def)
qed

theorem generateImage_sends_prompt_unchecked_witness:
  "fst (generateImage (sample_env (throwing quota_error)) [] None)
     = [GenerateContent \<lparr> apiKey = [], model = ''gemini-3-pro-image-preview'', contents = [],
                           aspectRatio = ''1:1'', imageSize = K1 \<rparr>,
        ConsoleError (Some ''Gemini API Error:'') quota_error]"
  using generateImage_sends_prompt_unchecked [of "sample_env (throwing quota_error)" "[]" None]
  by (simp add: sample_defs build_request_def requested_size_def)

text \<open>
  C9. The request client inspects only the content parts of the first candidate: a
  returned image is always the payload of a part of the first candidate, the candidates
  after the first have no influence on the result, and a response whose candidate list is
  empty, or whose first candidate has no content parts, never yields a success.
\<close>

theorem generateImage_reads_first_candidate_only:
  assumes "generateContent e (build_request e p (requested_size sz)) = Inr r"
  shows "(\<forall>url. snd (generateImage e p sz) = Inr url \<longrightarrow>
            (\<exists>c cs q b. candidates r = Some (c # cs) \<and> q \<in> set (candidate_parts c)
               \<and> inlineData q = Some b \<and> url = ''data:image/png;base64,'' @ data b))
         \<and> (\<forall>c cs. candidates r = Some (c # cs) \<longrightarrow>
               snd (generateImage e p sz) = scan_response \<lparr> candidates = Some [c] \<rparr>)
         \<and> (candidates r = Some [] \<longrightarrow> isl (snd (generateImage e p sz)))
         \<and> (\<forall>c cs. candidates r = Some (c # cs) \<and> candidate_parts c = [] \<longrightarrow>
               isl (snd (generateImage e p sz)))"
proof (intro conjI allI impI)
  fix url assume "snd (generateImage e p sz) = Inr url"
  with assms have "scan_response r = Inr url"
    by (simp add: generateImage_result)
  from scan_response_Inr [OF this]
  obtain c cs ct ps q b where found:
    "candidates r = Some (c # cs)" "content c = Some ct" "parts ct = Some ps"
    "q \<in> set ps" "inlineData q = Some b" "url = ''data:image/png;base64,'' @ data b"
    by blast
  from found(2,3) have "candidate_parts c = ps"
    by (simp add: candidate_parts_def)
  with found(1,4,5,6)
  show "\<exists>c cs q b. candidates r = Some (c # cs) \<and> q \<in> set (candidate_parts c)
          \<and> inlineData q = Some b \<and> url = ''data:image/png;base64,'' @ data b"
    by blast
next
  fix c cs assume "candidates r = Some (c # cs)"
  with assms show "snd (generateImage e p sz) = scan_response \<lparr> candidates = Some [c] \<rparr>"
    by (simp add: generateImage_result scan_response_def)
next
  assume "candidates r = Some []"
  with assms show "isl (snd (generateImage e p sz))"
    by (simp add: generateImage_result scan_response_def)
next
  fix c cs assume "candidates r = Some (c # cs) \<and> candidate_parts c = []"
  with assms show "isl (snd (generateImage e p sz))"
    by (auto simp: generateImage_result scan_response_def finish_def candidate_parts_def
             split: option.splits)
qed

theorem generateImage_reads_first_candidate_only_witness:
  "snd (generateImage (sample_env (answering late_image_response)) ''a red fox'' (Some K1))
     = scan_response \<lparr> candidates = Some [candidate_of [text_part ''No image here.'']] \<rparr>
   \<and> isl (snd (generateImage (sample_env (answering late_image_response)) ''a red fox'' (Some K1)))"
proof -
  let ?e = "sample_env (answering late_image_response)"
  have h: "generateContent ?e (build_request ?e ''a red fox'' (requested_size (Some K1)))
             = Inr late_image_response"
    by (simp add: sample_defs)
  have c: "candidates late_image_response
             = Some (candidate_of [text_part ''No image here.'']
                     # [candidate_of [image_part ''image/png'' ''QUJD'']])"
    by (simp add: sample_defs)
  have noimg: "scan_response \<lparr> candidates = Some [candidate_of [text_part ''No image here.'']] \<rparr>
                 = Inl no_image_error"
    by (simp add: sample_defs run_defs)
  from generateImage_reads_first_candidate_only [OF h] c noimg show ?thesis
    by simp
qed

section \<open>The generation controller: properties\<close>

text \<open>
  C1, as stated: for every submission in which the generation call succeeds, the balance
  after is the balance before less the fixed cost. The controller checks the credits of
  the record it has loaded (line 135) and debits the store (line 155), and the store never
  lets a balance fall below zero: with a loaded record of 10 credits, a store balance of 5
  and a cost of 10 the generation succeeds and the balance goes from 5 to 0, not to -5.
\<close>

theorem handleGenerate_debits_stale_balance:
  "snd (generateImage (sample_env (answering sample_response)) (prompt (sample_state 10))
          (Some (size_tier (sample_state 10)))) = Inr ''data:image/png;base64,QUJD''
   \<and> balances (sample_world 5) ''u1'' - IMAGE_COST (sample_env (answering sample_response)) = - 5
   \<and> balances (fst (snd (handleGenerate (sample_env (answering sample_response))
                           (sample_state 10) (sample_world 5)))) ''u1'' = 0"
  by (simp add: sample_defs run_defs)

text \<open>
  C1, amended: for every submission in which the generation call succeeds, the controller
  asks the account store for one debit of exactly the fixed image cost and appends exactly
  one history entry whose prompt, resolution and image reference are the submitted prompt,
  the requested resolution tier and the returned image reference. The store's balance of
  the account after is the greater of zero and balance before - fixed cost: it is balance
  before - fixed cost whenever the store's balance covers the cost, as it does when the
  loaded record mirrors the store. No other account changes, and the loaded record becomes
  the updated account.
\<close>

theorem handleGenerate_success_debits_and_records:
  assumes "user s = Some u" and "\<not> credits u < IMAGE_COST e"
      and "handleGenerate e s w = (s', w', None)"
      and "snd (generateImage e (prompt s) (Some (size_tier s))) = Inr url"
  shows "balances w' (uid u) = max 0 (balances w (uid u) - IMAGE_COST e)
         \<and> (IMAGE_COST e \<le> balances w (uid u) \<longrightarrow>
               balances w' (uid u) = balances w (uid u) - IMAGE_COST e)
         \<and> (\<forall>i. i \<noteq> uid u \<longrightarrow> balances w' i = balances w i)
         \<and> user s' = Some \<lparr> uid = uid u, credits = balances w' (uid u) \<rparr>
         \<and> history w' = history w @ [\<lparr> accountId = uid u, entry_prompt = prompt s,
               imageReference = url, modelIdentifier = ''gemini-3-pro-image-preview'',
               resolution = size_tier s \<rparr>]"
proof -
  let ?w0 = "emit PreventDefault w"
  let ?gate = "if \<not> hasApiKey s \<and> aistudio e \<noteq> None then handleSelectKey e s ?w0 else (s, ?w0, None)"
  obtain s1 w1 r1 where gate: "?gate = (s1, w1, r1)"
    by (cases ?gate) auto
  from key_gate_frame [OF gate]
  have frame1: "balances w1 = balances w \<and> history w1 = history w" by simp
  from assms(1-3) gate have run: "run_generation e u s s1 w1 = (s', w')"
    by (cases r1) (auto simp: handleGenerate_def Let_def split: prod.splits)
  from run_generation_success [OF assms(4) run] frame1 show ?thesis
    by (simp add: max_def)
qed

theorem handleGenerate_success_debits_and_records_witness:
  "balances (fst (snd (handleGenerate (sample_env (answering sample_response))
                         (sample_state 10) (sample_world 10)))) ''u1'' = 0
   \<and> user (fst (handleGenerate (sample_env (answering sample_response))
                  (sample_state 10) (sample_world 10)))
        = Some \<lparr> uid = ''u1'', credits = 0 \<rparr>
   \<and> history (fst (snd (handleGenerate (sample_env (answering sample_response))
                          (sample_state 10) (sample_world 10))))
        = [\<lparr> accountId = ''u1'', entry_prompt = ''a red fox'',
             imageReference = ''data:image/png;base64,QUJD'',
             modelIdentifier = ''gemini-3-pro-image-preview'', resolution = K2 \<rparr>]"
proof -
  let ?e = "sample_env (answering sample_response)"
  let ?s = "sample_state 10"
  let ?w = "sample_world 10"
  let ?u = "\<lparr> uid = ''u1'', credits = 10 \<rparr>"
  have h1: "user ?s = Some ?u"
    by (simp add: sample_defs)
  have h2: "\<not> credits ?u < IMAGE_COST ?e"
    by (simp add: sample_defs)
  have h3: "handleGenerate ?e ?s ?w
              = (fst (handleGenerate ?e ?s ?w), fst (snd (handleGenerate ?e ?s ?w)), None)"
    by (simp add: sample_defs run_defs)
  have h4: "snd (generateImage ?e (prompt ?s) (Some (size_tier ?s))) = Inr ''data:image/png;base64,QUJD''"
    by (simp add: sample_defs run_defs)
  have before: "balances ?w ''u1'' = 10" "IMAGE_COST ?e = 10" "uid ?u = ''u1''" "history ?w = []"
    "prompt ?s = ''a red fox''" "size_tier ?s = K2"
    by (simp_all add: sample_defs)
  from handleGenerate_success_debits_and_records [OF h1 h2 h3 h4] show ?thesis
    unfolding before by simp
qed

text \<open>
  C2. For every account whose balance is strictly less than the fixed image cost,
  submission is rejected before any network call and before any credential check (the
  only effect is the \<open>preventDefault\<close> of the form event), the balance is unchanged, and
  the error message cites the required amount.
\<close>

theorem handleGenerate_insufficient_credits:
  assumes "user s = Some u" and "credits u < IMAGE_COST e"
      and "handleGenerate e s w = (s', w', r)"
  shows "r = None \<and> events w' = events w @ [PreventDefault]
           \<and> balances w' = balances w \<and> history w' = history w \<and> user s' = user s
           \<and> error s' = ''Not enough credits. You need '' @ string_of_int (IMAGE_COST e)
                          @ '' credits to generate an image.''
           \<and> includes_str (error s') (string_of_int (IMAGE_COST e))"
proof -
  let ?m = "''Not enough credits. You need '' @ string_of_int (IMAGE_COST e)
              @ '' credits to generate an image.''"
  from assms have eq: "s' = s\<lparr> error := ?m \<rparr>" "w' = emit PreventDefault w" "r = None"
    by (simp_all add: handleGenerate_def Let_def)
  have "includes_str ?m (string_of_int (IMAGE_COST e))"
    by (rule includes_str_append)
  with eq show ?thesis
    by (simp add: emit_def)
qed

theorem handleGenerate_insufficient_credits_witness:
  "error (fst (handleGenerate (sample_env (answering sample_response)) (sample_state 5) (sample_world 5)))
     = ''Not enough credits. You need 10 credits to generate an image.''
   \<and> balances (fst (snd (handleGenerate (sample_env (answering sample_response))
                           (sample_state 5) (sample_world 5)))) ''u1'' = 5
   \<and> events (fst (snd (handleGenerate (sample_env (answering sample_response))
                         (sample_state 5) (sample_world 5))))
       = [PreventDefault]"
proof -
  let ?e = "sample_env (answering sample_response)"
  let ?s = "sample_state 5"
  let ?w = "sample_world 5"
  let ?u = "\<lparr> uid = ''u1'', credits = 5 \<rparr>"
  have h1: "user ?s = Some ?u"
    by (simp add: sample_defs)
  have h2: "credits ?u < IMAGE_COST ?e"
    by (simp add: sample_defs)
  have h3: "handleGenerate ?e ?s ?w = (fst (handleGenerate ?e ?s ?w), fst (snd (handleGenerate ?e ?s ?w)),
              snd (snd (handleGenerate ?e ?s ?w)))"
    by simp
  have ten: "string_of_int 10 = ''10''"
    by code_simp
  from handleGenerate_insufficient_credits [OF h1 h2 h3] ten show ?thesis
    by (simp add: sample_defs)
qed

text \<open>
  C5, as stated: for every submission that passes the credit check and then fails at any
  later step, the account balance is unchanged and no history entry is written. A key
  selection that fails with an error other than "not found" is only logged by
  \<open>handleSelectKey\<close> (lines 125 to 127), and the handler goes on: here the dialog
  fails, the image is generated all the same, the account is debited and the history
  entry is written.
\<close>

theorem handleGenerate_proceeds_after_failed_key_selection:
  "events (fst (snd (handleGenerate (key_env (answering sample_response) (rejecting_first cancelled_error))
                       ((sample_state 10)\<lparr> hasApiKey := False \<rparr>) (sample_world 10))))
     = [PreventDefault, OpenSelectKey, ConsoleError None cancelled_error,
        GenerateContent \<lparr> apiKey = [], model = ''gemini-3-pro-image-preview'',
                          contents = ''a red fox'', aspectRatio = ''1:1'', imageSize = K2 \<rparr>,
        DispatchEvent ''user-updated'']
   \<and> balances (sample_world 10) ''u1'' = 10
   \<and> balances (fst (snd (handleGenerate (key_env (answering sample_response) (rejecting_first cancelled_error))
                           ((sample_state 10)\<lparr> hasApiKey := False \<rparr>) (sample_world 10)))) ''u1'' = 0
   \<and> history (fst (snd (handleGenerate (key_env (answering sample_response) (rejecting_first cancelled_error))
                          ((sample_state 10)\<lparr> hasApiKey := False \<rparr>) (sample_world 10))))
       = [\<lparr> accountId = ''u1'', entry_prompt = ''a red fox'',
            imageReference = ''data:image/png;base64,QUJD'',
            modelIdentifier = ''gemini-3-pro-image-preview'', resolution = K2 \<rparr>]"
  by (simp add: sample_defs run_defs)

text \<open>
  C5, amended: for every submission that passes the credit check and whose handler then
  stops in the key selection (the second dialog, opened after a "not found" error, fails
  and rejects the handler's promise) or whose generation call fails (the handler catches
  it), the account balance is unchanged, no history entry is written and the loaded user
  record stays as it was.
\<close>

theorem handleGenerate_failure_keeps_account_and_history:
  assumes "user s = Some u" and "\<not> credits u < IMAGE_COST e"
      and "handleGenerate e s w = (s', w', r)"
      and "r \<noteq> None \<or> isl (snd (generateImage e (prompt s) (Some (size_tier s))))"
  shows "balances w' = balances w \<and> history w' = history w \<and> user s' = user s"
proof -
  let ?w0 = "emit PreventDefault w"
  let ?gate = "if \<not> hasApiKey s \<and> aistudio e \<noteq> None then handleSelectKey e s ?w0 else (s, ?w0, None)"
  obtain s1 w1 r1 where gate: "?gate = (s1, w1, r1)"
    by (cases ?gate) auto
  note frame1 = key_gate_frame [OF gate]
  show ?thesis
  proof (cases r1)
    case (Some x)
    with assms(1-3) gate have "s' = s1" "w' = w1"
      by (auto simp: handleGenerate_def Let_def)
    with frame1 show ?thesis by simp
  next
    case None
    with assms(1-3) gate have run: "run_generation e u s s1 w1 = (s', w')" and "r = None"
      by (auto simp: handleGenerate_def Let_def split: prod.splits)
    with assms(4) obtain x where "snd (generateImage e (prompt s) (Some (size_tier s))) = Inl x"
      by (auto simp: isl_def)
    from run_generation_failure [OF this refl refl run] frame1 show ?thesis
      by simp
  qed
qed

theorem handleGenerate_failure_keeps_account_and_history_witness:
  "balances (fst (snd (handleGenerate (sample_env (answering blocked_response))
                         (sample_state 10) (sample_world 10)))) ''u1'' = 10
   \<and> history (fst (snd (handleGenerate (sample_env (answering blocked_response))
                          (sample_state 10) (sample_world 10)))) = []
   \<and> user (fst (handleGenerate (sample_env (answering blocked_response))
                  (sample_state 10) (sample_world 10)))
        = Some \<lparr> uid = ''u1'', credits = 10 \<rparr>"
proof -
  let ?e = "sample_env (answering blocked_response)"
  let ?s = "sample_state 10"
  let ?w = "sample_world 10"
  let ?u = "\<lparr> uid = ''u1'', credits = 10 \<rparr>"
  have h1: "user ?s = Some ?u"
    by (simp add: sample_defs)
  have h2: "\<not> credits ?u < IMAGE_COST ?e"
    by (simp add: sample_defs)
  have h3: "handleGenerate ?e ?s ?w = (fst (handleGenerate ?e ?s ?w), fst (snd (handleGenerate ?e ?s ?w)),
              snd (snd (handleGenerate ?e ?s ?w)))"
    by simp
  have h4: "snd (snd (handleGenerate ?e ?s ?w)) \<noteq> None
            \<or> isl (snd (generateImage ?e (prompt ?s) (Some (size_tier ?s))))"
    by (simp add: sample_defs run_defs)
  from handleGenerate_failure_keeps_account_and_history [OF h1 h2 h3 h4] show ?thesis
    by (simp add: sample_defs)
qed

text \<open>
  C7. When credential selection fails with an error signalling that the selected entity
  was not found, the selection flow is retried exactly once automatically before
  generation proceeds: \<open>handleSelectKey\<close> opens the dialog a second time and no third
  time, and a submission that had to select a key sends its request to the service only
  after that second dialog, and not at all when the second dialog fails too.
\<close>

theorem handleSelectKey_retried_once:
  assumes "aistudio e = Some a" and "openSelectKey a = Some f"
      and "f (select_calls w) = Some x"
      and "includes_str (err_message x) ''Requested entity was not found''"
      and "user s = Some u" and "\<not> credits u < IMAGE_COST e" and "\<not> hasApiKey s"
      and "handleSelectKey e s w = (s1, w1, r1)"
      and "handleGenerate e s w = (s2, w2, r2)"
  shows "events w1 = events w @ [OpenSelectKey, Alert ''Please select a valid API key again.'', OpenSelectKey]
         \<and> r1 = f (Suc (select_calls w))
         \<and> r2 = f (Suc (select_calls w))
         \<and> (\<exists>rest. events w2 = events w @ [PreventDefault, OpenSelectKey,
                        Alert ''Please select a valid API key again.'', OpenSelectKey] @ rest
               \<and> OpenSelectKey \<notin> set rest
               \<and> (if r2 = None
                   then \<exists>tl. rest = GenerateContent (build_request e (prompt s) (size_tier s)) # tl
                   else rest = []))"
proof -
  let ?w0 = "emit PreventDefault w"
  let ?sel = "[OpenSelectKey, Alert ''Please select a valid API key again.'', OpenSelectKey]"
  from handleSelectKey_retry [OF assms(1-4) assms(8)]
  have first: "events w1 = events w @ ?sel" "r1 = f (Suc (select_calls w))"
    by simp_all
  obtain s3 w3 r3 where gate: "handleSelectKey e s ?w0 = (s3, w3, r3)"
    by (cases "handleSelectKey e s ?w0") auto
  have calls: "select_calls ?w0 = select_calls w"
    by (simp add: select_calls_emit)
  from assms(3) calls have "f (select_calls ?w0) = Some x" by simp
  from handleSelectKey_retry [OF assms(1,2) this assms(4) gate] calls
  have second: "events w3 = events w @ PreventDefault # ?sel" "r3 = f (Suc (select_calls w))"
    by (simp_all add: events_emit)
  show ?thesis
  proof (cases r3)
    case (Some y)
    with assms(1,5,6,7,9) gate have "w2 = w3" "r2 = r3"
      by (auto simp: handleGenerate_def Let_def)
    moreover from second(2) Some have "f (Suc (select_calls w)) = Some y" by simp
    ultimately show ?thesis using first second by simp
  next
    case None
    with assms(1,5,6,7,9) gate have run: "run_generation e u s s3 w3 = (s2, w2)" and r2: "r2 = None"
      by (auto simp: handleGenerate_def Let_def split: prod.splits)
    from run_generation_events [OF run] obtain ev where ev: "ev \<noteq> OpenSelectKey"
      "events w2 = events w3 @ fst (generateImage e (prompt s) (Some (size_tier s))) @ [ev]"
      by blast
    let ?g = "fst (generateImage e (prompt s) (Some (size_tier s)))"
    have g: "?g = GenerateContent (build_request e (prompt s) (size_tier s)) # tl ?g"
      by (simp add: generateImage_events requested_size_def)
    have nosel: "OpenSelectKey \<notin> set (?g @ [ev])"
      using ev(1) generateImage_no_select [of e "prompt s" "Some (size_tier s)"] by simp
    have ev2: "events w2 = events w @ [PreventDefault, OpenSelectKey,
            Alert ''Please select a valid API key again.'', OpenSelectKey] @ (?g @ [ev])"
      using ev(2) second(1) by simp
    have hd: "\<exists>tl. ?g @ [ev] = GenerateContent (build_request e (prompt s) (size_tier s)) # tl"
      using g by (metis append_Cons)
    have "\<exists>rest. events w2 = events w @ [PreventDefault, OpenSelectKey,
                        Alert ''Please select a valid API key again.'', OpenSelectKey] @ rest
               \<and> OpenSelectKey \<notin> set rest
               \<and> (if r2 = None
                   then \<exists>tl. rest = GenerateContent (build_request e (prompt s) (size_tier s)) # tl
                   else rest = [])"
    proof (intro exI conjI)
      show "events w2 = events w @ [PreventDefault, OpenSelectKey,
              Alert ''Please select a valid API key again.'', OpenSelectKey] @ (?g @ [ev])"
        by (rule ev2)
      show "OpenSelectKey \<notin> set (?g @ [ev])"
        by (rule nosel)
      show "if r2 = None
            then \<exists>tl. ?g @ [ev] = GenerateContent (build_request e (prompt s) (size_tier s)) # tl
            else ?g @ [ev] = []"
        using r2 hd by simp
    qed
    moreover from second(2) None r2 have "r2 = f (Suc (select_calls w))" by simp
    ultimately show ?thesis
      using first by simp
  qed
qed

theorem handleSelectKey_retried_once_witness:
  "events (fst (snd (handleSelectKey (key_env (answering sample_response) (rejecting_first not_found_error))
                       ((sample_state 10)\<lparr> hasApiKey := False \<rparr>) (sample_world 10))))
     = [OpenSelectKey, Alert ''Please select a valid API key again.'', OpenSelectKey]
   \<and> snd (snd (handleGenerate (key_env (answering sample_response) (rejecting_first not_found_error))
                 ((sample_state 10)\<lparr> hasApiKey := False \<rparr>) (sample_world 10))) = None
   \<and> take 5 (events (fst (snd (handleGenerate (key_env (answering sample_response) (rejecting_first not_found_error))
                       ((sample_state 10)\<lparr> hasApiKey := False \<rparr>) (sample_world 10)))))
     = [PreventDefault, OpenSelectKey, Alert ''Please select a valid API key again.'', OpenSelectKey,
        GenerateContent \<lparr> apiKey = [], model = ''gemini-3-pro-image-preview'',
                          contents = ''a red fox'', aspectRatio = ''1:1'', imageSize = K2 \<rparr>]"
proof -
  let ?e = "key_env (answering sample_response) (rejecting_first not_found_error)"
  let ?s = "(sample_state 10)\<lparr> hasApiKey := False \<rparr>"
  let ?w = "sample_world 10"
  let ?u = "\<lparr> uid = ''u1'', credits = 10 \<rparr>"
  let ?a = "\<lparr> openSelectKey = Some (rejecting_first not_found_error) \<rparr>"
  have h1: "aistudio ?e = Some ?a"
    by (simp add: sample_defs)
  have h2: "openSelectKey ?a = Some (rejecting_first not_found_error)"
    by simp
  have h3: "rejecting_first not_found_error (select_calls ?w) = Some not_found_error"
    by (simp add: sample_defs select_calls_def)
  have h4: "includes_str (err_message not_found_error) ''Requested entity was not found''"
    by (simp add: sample_defs)
  have h5: "user ?s = Some ?u"
    by (simp add: sample_defs)
  have h6: "\<not> credits ?u < IMAGE_COST ?e"
    by (simp add: sample_defs)
  have h7: "\<not> hasApiKey ?s"
    by simp
  have h8: "handleSelectKey ?e ?s ?w = (fst (handleSelectKey ?e ?s ?w),
              fst (snd (handleSelectKey ?e ?s ?w)), snd (snd (handleSelectKey ?e ?s ?w)))"
    by simp
  have h9: "handleGenerate ?e ?s ?w = (fst (handleGenerate ?e ?s ?w),
              fst (snd (handleGenerate ?e ?s ?w)), snd (snd (handleGenerate ?e ?s ?w)))"
    by simp
  have calls: "select_calls ?w = 0" "events ?w = []"
    by (simp_all add: sample_defs select_calls_def)
  have f1: "rejecting_first not_found_error (Suc 0) = None"
    by (simp add: rejecting_first_def)
  have req: "build_request ?e (prompt ?s) (size_tier ?s)
               = \<lparr> apiKey = [], model = ''gemini-3-pro-image-preview'',
                   contents = ''a red fox'', aspectRatio = ''1:1'', imageSize = K2 \<rparr>"
    by (simp add: sample_defs build_request_def modelName_def)
  from handleSelectKey_retried_once [OF h1 h2 h3 h4 h5 h6 h7 h8 h9]
  show ?thesis
    unfolding calls f1 req by auto
qed

text \<open>
  C10. If no user record is loaded at submission time, the submission handler returns at
  once: no error message is set (the component's state is unchanged), no credential check
  and no network call is made (the only effect is the \<open>preventDefault\<close> of the form
  event), and neither the account store nor the history changes.
\<close>

theorem handleGenerate_without_user:
  assumes "user s = None" and "handleGenerate e s w = (s', w', r)"
  shows "r = None \<and> s' = s \<and> balances w' = balances w \<and> history w' = history w
           \<and> events w' = events w @ [PreventDefault]"
  using assms by (auto simp: handleGenerate_def Let_def emit_def)

theorem handleGenerate_without_user_witness:
  "fst (handleGenerate (sample_env (answering sample_response))
          ((sample_state 10)\<lparr> user := None \<rparr>) (sample_world 10))
     = (sample_state 10)\<lparr> user := None \<rparr>
   \<and> events (fst (snd (handleGenerate (sample_env (answering sample_response))
                         ((sample_state 10)\<lparr> user := None \<rparr>) (sample_world 10))))
       = [PreventDefault]"
proof -
  let ?e = "sample_env (answering sample_response)"
  let ?s = "(sample_state 10)\<lparr> user := None \<rparr>"
  let ?w = "sample_world 10"
  have h1: "user ?s = None"
    by simp
  have h2: "handleGenerate ?e ?s ?w = (fst (handleGenerate ?e ?s ?w),
              fst (snd (handleGenerate ?e ?s ?w)), snd (snd (handleGenerate ?e ?s ?w)))"
    by simp
  from handleGenerate_without_user [OF h1 h2] show ?thesis
    by (simp add: sample_world_def)
qed

end
